theory Spec2Isabelle
  imports Main "HOL-Library.Word"
begin

section \<open>Machine integers and text\<close>

text \<open>
  Go's \<open>int\<close> is taken at 64 bits (the amd64 and arm64 targets) and \<open>int32\<close> at 32 bits.
  The conversion \<open>int32(x)\<close> keeps the low 32 bits, \<open>int(y)\<close> extends the sign.
  Comparisons of either type are signed.
\<close>

type_synonym go_int = "64 word"
type_synonym int32 = "32 word"

definition int32_of :: "go_int \<Rightarrow> int32" where
  "int32_of x = ucast x"


text \<open>
  Decimal rendering of a Go \<open>int\<close>, as the verb \<open>%d\<close> of \<open>fmt\<close> prints it.
\<close>

definition digit_char :: "nat \<Rightarrow> char" where
  "digit_char d = char_of (48 + d)"

function dec_digits :: "nat \<Rightarrow> string" where
  "dec_digits n =
     (if n < 10 then [digit_char n] else dec_digits (n div 10) @ [digit_char (n mod 10)])"
  by pat_completeness auto
termination
  by (relation "measure (\<lambda>n. n)") auto

declare dec_digits.simps [simp del]

definition fmt_d :: "go_int \<Rightarrow> string" where
  "fmt_d x = (if sint x < 0 then CHR ''-'' # dec_digits (nat (- sint x))
              else dec_digits (nat (sint x)))"

section \<open>The status model\<close>

text \<open>
  Modelled from the spec: the declarations of \<open>Status\<close>, \<open>StatusDetails\<close>,
  \<open>StatusCause\<close>, \<open>StatusReason\<close> and \<open>CauseType\<close> (the file of type declarations
  of package \<open>errors\<close>) are not among the sources. The fields are the ones that
  \<open>errors.go\<close> reads and writes; their types follow its conversions
  (\<open>int32(code)\<close>, \<open>CauseType(err.Type)\<close>, \<open>len(status.Status)\<close>). Reasons and cause
  types cross the wire as strings, the empty string being the zero value.
\<close>

type_synonym StatusReason = string
type_synonym CauseType = string

record StatusCause =
  Type :: CauseType
  CauseMessage :: string
  Field :: string

record StatusDetails =
  Name :: string
  UID :: string
  Causes :: "StatusCause list"
  RetryAfterSeconds :: int32

record Status =
  Status :: string
  Message :: string
  Reason :: StatusReason
  Details :: "StatusDetails option"
  Code :: int32

text \<open>
  Modelled from the spec: the constants of the status field, of the reasons and of the
  cause type that \<open>errors.go\<close> names are declared in the same missing file. Their
  values are the wire strings of the spec's enumeration; \<open>StatusReasonUnknown\<close> is the
  empty string.
\<close>

definition StatusSuccess :: string where "StatusSuccess = ''Success''"
definition StatusFailure :: string where "StatusFailure = ''Failure''"

definition StatusReasonUnknown :: StatusReason where
  "StatusReasonUnknown = ''''"
definition StatusReasonUnauthorized :: StatusReason where
  "StatusReasonUnauthorized = ''Unauthorized''"
definition StatusReasonForbidden :: StatusReason where
  "StatusReasonForbidden = ''Forbidden''"
definition StatusReasonNotFound :: StatusReason where
  "StatusReasonNotFound = ''NotFound''"
definition StatusReasonAlreadyExists :: StatusReason where
  "StatusReasonAlreadyExists = ''AlreadyExists''"
definition StatusReasonConflict :: StatusReason where
  "StatusReasonConflict = ''Conflict''"
definition StatusReasonInvalid :: StatusReason where
  "StatusReasonInvalid = ''Invalid''"
definition StatusReasonServerTimeout :: StatusReason where
  "StatusReasonServerTimeout = ''ServerTimeout''"
definition StatusReasonTimeout :: StatusReason where
  "StatusReasonTimeout = ''Timeout''"
definition StatusReasonTooManyRequests :: StatusReason where
  "StatusReasonTooManyRequests = ''TooManyRequests''"
definition StatusReasonBadRequest :: StatusReason where
  "StatusReasonBadRequest = ''BadRequest''"
definition StatusReasonMethodNotAllowed :: StatusReason where
  "StatusReasonMethodNotAllowed = ''MethodNotAllowed''"
definition StatusReasonNotAcceptable :: StatusReason where
  "StatusReasonNotAcceptable = ''NotAcceptable''"
definition StatusReasonRequestEntityTooLarge :: StatusReason where
  "StatusReasonRequestEntityTooLarge = ''RequestEntityTooLarge''"
definition StatusReasonUnsupportedMediaType :: StatusReason where
  "StatusReasonUnsupportedMediaType = ''UnsupportedMediaType''"
definition StatusReasonInternalError :: StatusReason where
  "StatusReasonInternalError = ''InternalError''"
definition StatusReasonServiceUnavailable :: StatusReason where
  "StatusReasonServiceUnavailable = ''ServiceUnavailable''"

definition CauseTypeUnexpectedServerResponse :: CauseType where
  "CauseTypeUnexpectedServerResponse = ''UnexpectedServerResponse''"

text \<open>The zero values of the structs, which the code builds by omitting fields.\<close>

definition StatusCause_zero :: StatusCause where
  "StatusCause_zero = \<lparr>Type = '''', CauseMessage = '''', Field = ''''\<rparr>"

definition StatusDetails_zero :: StatusDetails where
  "StatusDetails_zero = \<lparr>Name = '''', UID = '''', Causes = [], RetryAfterSeconds = 0\<rparr>"

definition Status_zero :: Status where
  "Status_zero = \<lparr>Status = '''', Message = '''', Reason = '''', Details = None, Code = 0\<rparr>"


text \<open>
  The status codes of \<open>net/http\<close> are untyped constants: the code uses them as \<open>int\<close>
  (the switch of \<open>NewGenericServerResponse\<close>) and as \<open>int32\<close> (the field \<open>Code\<close>).
\<close>

definition http_StatusOK :: "'a::len word" where "http_StatusOK = 200"
definition http_StatusNoContent :: "'a::len word" where "http_StatusNoContent = 204"
definition http_StatusBadRequest :: "'a::len word" where "http_StatusBadRequest = 400"
definition http_StatusUnauthorized :: "'a::len word" where "http_StatusUnauthorized = 401"
definition http_StatusForbidden :: "'a::len word" where "http_StatusForbidden = 403"
definition http_StatusNotFound :: "'a::len word" where "http_StatusNotFound = 404"
definition http_StatusMethodNotAllowed :: "'a::len word" where
  "http_StatusMethodNotAllowed = 405"
definition http_StatusNotAcceptable :: "'a::len word" where "http_StatusNotAcceptable = 406"
definition http_StatusConflict :: "'a::len word" where "http_StatusConflict = 409"
definition http_StatusRequestEntityTooLarge :: "'a::len word" where
  "http_StatusRequestEntityTooLarge = 413"
definition http_StatusUnsupportedMediaType :: "'a::len word" where
  "http_StatusUnsupportedMediaType = 415"
definition http_StatusUnprocessableEntity :: "'a::len word" where
  "http_StatusUnprocessableEntity = 422"
definition http_StatusTooManyRequests :: "'a::len word" where
  "http_StatusTooManyRequests = 429"
definition http_StatusInternalServerError :: "'a::len word" where
  "http_StatusInternalServerError = 500"
definition http_StatusServiceUnavailable :: "'a::len word" where
  "http_StatusServiceUnavailable = 503"
definition http_StatusGatewayTimeout :: "'a::len word" where
  "http_StatusGatewayTimeout = 504"

section \<open>Error values\<close>

text \<open>
  A Go \<open>error\<close> is an interface value: \<open>nil\<close>, or a value of a concrete type. The
  concrete types are the ones this package and its tests build: \<open>*StatusError\<close> and
  \<open>*UnexpectedObjectError\<close> (pointers, so each may be a nil pointer inside a non-nil
  interface), the result of \<open>errors.New\<close>, and the result of \<open>fmt.Errorf\<close> with one
  \<open>%w\<close> operand, which records the error it wraps. The object of an
  \<open>UnexpectedObjectError\<close> is kept as its \<open>%v\<close> rendering, the only use the code makes
  of it.
\<close>

record StatusError =
  ErrStatus :: Status

datatype err =
    PtrStatusError "StatusError option"
  | PtrUnexpectedObjectError "string option"
  | errorString string
  | wrapError string err

type_synonym error = "err option"

datatype go_panic = NilPointerDereference

text \<open>
  \<open>func (e *StatusError) Error() string\<close> and \<open>func (e *StatusError) Status() Status\<close>
  read a field of the receiver: on a nil receiver they panic.
\<close>

definition StatusError_Error :: "StatusError option \<Rightarrow> go_panic + string" where
  "StatusError_Error e =
     (case e of None \<Rightarrow> Inl NilPointerDereference
      | Some se \<Rightarrow> Inr (Message (ErrStatus se)))"

definition StatusError_Status :: "StatusError option \<Rightarrow> go_panic + Status" where
  "StatusError_Status e =
     (case e of None \<Rightarrow> Inl NilPointerDereference
      | Some se \<Rightarrow> Inr (ErrStatus se))"

definition UnexpectedObjectError_Error :: "string option \<Rightarrow> go_panic + string" where
  "UnexpectedObjectError_Error u =
     (case u of None \<Rightarrow> Inl NilPointerDereference
      | Some obj \<Rightarrow> Inr (''unexpected object: '' @ obj))"

text \<open>The method \<open>Error\<close> of a non-nil interface value, by dynamic type.\<close>

fun Error :: "err \<Rightarrow> go_panic + string" where
  "Error (PtrStatusError e) = StatusError_Error e"
| "Error (PtrUnexpectedObjectError u) = UnexpectedObjectError_Error u"
| "Error (errorString s) = Inr s"
| "Error (wrapError msg _) = Inr msg"

text \<open>
  An interface value holding the fresh pointer \<open>&StatusError{...}\<close> that a constructor
  returns.
\<close>

definition as_error :: "StatusError \<Rightarrow> error" where
  "as_error se = Some (PtrStatusError (Some se))"

text \<open>
  The verb \<open>%v\<close> (and \<open>%w\<close>) of \<open>fmt\<close> on an error operand: \<open><nil>\<close> for the nil
  interface, else the text of \<open>Error()\<close>; \<open>fmt\<close> recovers the panic of a nil receiver
  and prints \<open><nil>\<close> for it.
\<close>

definition fmt_v :: "error \<Rightarrow> string" where
  "fmt_v err =
     (case err of None \<Rightarrow> ''<nil>''
      | Some e \<Rightarrow> (case Error e of Inl _ \<Rightarrow> ''<nil>'' | Inr s \<Rightarrow> s))"

text \<open>\<open>fmt.Errorf(prefix + "%w", err)\<close> for a non-nil \<open>err\<close>.\<close>

definition Errorf_w :: "string \<Rightarrow> err \<Rightarrow> err" where
  "Errorf_w prefix e = wrapError (prefix @ fmt_v (Some e)) e"

section \<open>Constructors\<close>

definition NewNotFound :: "string \<Rightarrow> string \<Rightarrow> StatusError" where
  "NewNotFound name uid =
     (let message = (if length uid > 0 then name @ '' ('' @ uid @ '') not found''
                     else name @ '' not found'')
      in \<lparr>ErrStatus = \<lparr>
           Status = StatusFailure,
           Message = message,
           Reason = StatusReasonNotFound,
           Details = Some (StatusDetails_zero\<lparr>Name := name, UID := uid\<rparr>),
           Code = http_StatusNotFound\<rparr>\<rparr>)"

definition NewAlreadyExists :: "string \<Rightarrow> string \<Rightarrow> StatusError" where
  "NewAlreadyExists name uid =
     (let message = (if length uid > 0 then name @ '' ('' @ uid @ '') not found''
                     else name @ '' not found'')
      in \<lparr>ErrStatus = \<lparr>
           Status = StatusFailure,
           Message = message,
           Reason = StatusReasonAlreadyExists,
           Details = Some (StatusDetails_zero\<lparr>Name := name, UID := uid\<rparr>),
           Code = http_StatusConflict\<rparr>\<rparr>)"

definition NewUnauthorized :: "string \<Rightarrow> StatusError" where
  "NewUnauthorized reason =
     (let message = (if length reason = 0 then ''not authorized'' else reason)
      in \<lparr>ErrStatus = \<lparr>
           Status = StatusFailure,
           Message = message,
           Reason = StatusReasonUnauthorized,
           Details = None,
           Code = http_StatusUnauthorized\<rparr>\<rparr>)"

definition NewForbidden :: "string \<Rightarrow> error \<Rightarrow> StatusError" where
  "NewForbidden name err =
     (let message = ''forbidden: '' @ fmt_v err
      in \<lparr>ErrStatus = \<lparr>
           Status = StatusFailure,
           Message = message,
           Reason = StatusReasonForbidden,
           Details = Some (StatusDetails_zero\<lparr>Name := name\<rparr>),
           Code = http_StatusForbidden\<rparr>\<rparr>)"

definition NewConflict :: "string \<Rightarrow> error \<Rightarrow> StatusError" where
  "NewConflict name err =
     \<lparr>ErrStatus = \<lparr>
        Status = StatusFailure,
        Message = ''Operation cannot be fulfilled on '' @ name @ '': '' @ fmt_v err,
        Reason = StatusReasonConflict,
        Details = Some (StatusDetails_zero\<lparr>Name := name\<rparr>),
        Code = http_StatusConflict\<rparr>\<rparr>"

text \<open>
  \<open>field.ErrorList\<close> is a slice of pointers to \<open>field.Error\<close>, a struct of an outside
  package; \<open>NewInvalid\<close> reads its fields \<open>Type\<close> and \<open>Field\<close> and calls its method
  \<open>ErrorBody\<close>. That method and the text of \<open>errs.ToAggregate()\<close> under \<open>%v\<close> are
  parameters of the model. Reading \<open>err.Type\<close> through a nil entry panics.
\<close>

record field_Error =
  ErrorType :: string
  ErrorField :: string
  BadValue :: string
  Detail :: string

fun NewInvalid_causes ::
  "(field_Error \<Rightarrow> string) \<Rightarrow> field_Error option list \<Rightarrow> StatusCause list
     \<Rightarrow> go_panic + StatusCause list" where
  "NewInvalid_causes ErrorBody [] causes = Inr causes"
| "NewInvalid_causes ErrorBody (None # errs) causes = Inl NilPointerDereference"
| "NewInvalid_causes ErrorBody (Some e # errs) causes =
     NewInvalid_causes ErrorBody errs
       (causes @ [\<lparr>Type = ErrorType e, CauseMessage = ErrorBody e, Field = ErrorField e\<rparr>])"

definition NewInvalid ::
  "(field_Error \<Rightarrow> string) \<Rightarrow> (field_Error option list \<Rightarrow> string)
     \<Rightarrow> string \<Rightarrow> field_Error option list \<Rightarrow> go_panic + StatusError" where
  "NewInvalid ErrorBody ToAggregate_text name errs =
     (case NewInvalid_causes ErrorBody errs [] of
        Inl p \<Rightarrow> Inl p
      | Inr causes \<Rightarrow> Inr \<lparr>ErrStatus = \<lparr>
           Status = StatusFailure,
           Message = name @ '' is invalid: '' @ ToAggregate_text errs,
           Reason = StatusReasonInvalid,
           Details = Some (StatusDetails_zero\<lparr>Name := name, Causes := causes\<rparr>),
           Code = http_StatusUnprocessableEntity\<rparr>\<rparr>)"

definition NewBadRequest :: "string \<Rightarrow> StatusError" where
  "NewBadRequest reason =
     \<lparr>ErrStatus = \<lparr>
        Status = StatusFailure,
        Message = reason,
        Reason = StatusReasonBadRequest,
        Details = None,
        Code = http_StatusBadRequest\<rparr>\<rparr>"

definition NewTooManyRequests :: "string \<Rightarrow> go_int \<Rightarrow> StatusError" where
  "NewTooManyRequests message retryAfterSeconds =
     \<lparr>ErrStatus = \<lparr>
        Status = StatusFailure,
        Message = message,
        Reason = StatusReasonTooManyRequests,
        Details = Some (StatusDetails_zero\<lparr>RetryAfterSeconds := int32_of retryAfterSeconds\<rparr>),
        Code = http_StatusTooManyRequests\<rparr>\<rparr>"

definition NewServiceUnavailable :: "string \<Rightarrow> StatusError" where
  "NewServiceUnavailable reason =
     \<lparr>ErrStatus = \<lparr>
        Status = StatusFailure,
        Message = reason,
        Reason = StatusReasonServiceUnavailable,
        Details = None,
        Code = http_StatusServiceUnavailable\<rparr>\<rparr>"

definition NewMethodNotSupported :: "string \<Rightarrow> StatusError" where
  "NewMethodNotSupported action =
     \<lparr>ErrStatus = \<lparr>
        Status = StatusFailure,
        Message = action @ '' is not supported on this resource'',
        Reason = StatusReasonMethodNotAllowed,
        Details = None,
        Code = http_StatusMethodNotAllowed\<rparr>\<rparr>"

definition NewServerTimeout :: "string \<Rightarrow> go_int \<Rightarrow> StatusError" where
  "NewServerTimeout operation retryAfterSeconds =
     \<lparr>ErrStatus = \<lparr>
        Status = StatusFailure,
        Message = ''The '' @ operation
          @ '' operation could not be completed at this time, please try again.'',
        Reason = StatusReasonServerTimeout,
        Details = Some (StatusDetails_zero\<lparr>Name := operation,
          RetryAfterSeconds := int32_of retryAfterSeconds\<rparr>),
        Code = http_StatusInternalServerError\<rparr>\<rparr>"

text \<open>
  \<open>NewInternalError\<close> calls \<open>err.Error()\<close> itself: on the nil interface, and on a nil
  pointer receiver, the call panics before anything is built.
\<close>

definition NewInternalError :: "error \<Rightarrow> go_panic + StatusError" where
  "NewInternalError err =
     (case err of
        None \<Rightarrow> Inl NilPointerDereference
      | Some e \<Rightarrow>
          (case Error e of
             Inl p \<Rightarrow> Inl p
           | Inr txt \<Rightarrow> Inr \<lparr>ErrStatus = \<lparr>
               Status = StatusFailure,
               Message = ''Internal error occurred: '' @ fmt_v err,
               Reason = StatusReasonInternalError,
               Details = Some (StatusDetails_zero\<lparr>
                 Causes := [StatusCause_zero\<lparr>CauseMessage := txt\<rparr>]\<rparr>),
               Code = http_StatusInternalServerError\<rparr>\<rparr>))"

definition NewTimeoutError :: "string \<Rightarrow> go_int \<Rightarrow> StatusError" where
  "NewTimeoutError message retryAfterSeconds =
     \<lparr>ErrStatus = \<lparr>
        Status = StatusFailure,
        Message = ''Timeout: '' @ message,
        Reason = StatusReasonTimeout,
        Details = Some (StatusDetails_zero\<lparr>RetryAfterSeconds := int32_of retryAfterSeconds\<rparr>),
        Code = http_StatusGatewayTimeout\<rparr>\<rparr>"

definition NewTooManyRequestsError :: "string \<Rightarrow> StatusError" where
  "NewTooManyRequestsError message =
     \<lparr>ErrStatus = \<lparr>
        Status = StatusFailure,
        Message = ''Too many requests: '' @ message,
        Reason = StatusReasonTooManyRequests,
        Details = None,
        Code = http_StatusTooManyRequests\<rparr>\<rparr>"

definition NewRequestEntityTooLargeError :: "string \<Rightarrow> StatusError" where
  "NewRequestEntityTooLargeError message =
     \<lparr>ErrStatus = \<lparr>
        Status = StatusFailure,
        Message = ''Request entity too large: '' @ message,
        Reason = StatusReasonRequestEntityTooLarge,
        Details = None,
        Code = http_StatusRequestEntityTooLarge\<rparr>\<rparr>"


text \<open>
  \<open>NewGenericServerResponse\<close> prints the server message with the verb \<open>%q\<close>
  (\<open>strconv.Quote\<close>, of the standard library) in one branch; the quoting function is a
  parameter of the model. \<open>NewGenericServerResponse_reason\<close> is the first part of the
  function: the initial reason and message and the switch that replaces them, its cases
  in the order of the source. The switch is on the \<open>int\<close> it is given; the status
  carries \<open>int32(code)\<close>.
\<close>

definition NewGenericServerResponse_reason ::
  "(string \<Rightarrow> string) \<Rightarrow> go_int \<Rightarrow> string \<Rightarrow> string \<Rightarrow> StatusReason \<times> string" where
  "NewGenericServerResponse_reason Quote code verb serverMessage =
     (if code = http_StatusConflict then
        ((if verb = ''POST'' then StatusReasonAlreadyExists else StatusReasonConflict),
         ''the server reported a conflict'')
      else if code = http_StatusNotFound then
        (StatusReasonNotFound, ''the server could not find the requested resource'')
      else if code = http_StatusBadRequest then
        (StatusReasonBadRequest, ''the server rejected our request for an unknown reason'')
      else if code = http_StatusUnauthorized then
        (StatusReasonUnauthorized,
         ''the server has asked for the client to provide credentials'')
      else if code = http_StatusForbidden then
        (StatusReasonForbidden, serverMessage)
      else if code = http_StatusNotAcceptable then
        (StatusReasonNotAcceptable,
         (if length serverMessage = 0 \<or> serverMessage = ''unknown''
          then ''the server was unable to respond with a content type that the client supports''
          else serverMessage))
      else if code = http_StatusUnsupportedMediaType then
        (StatusReasonUnsupportedMediaType, serverMessage)
      else if code = http_StatusMethodNotAllowed then
        (StatusReasonMethodNotAllowed,
         ''the server does not allow this method on the requested resource'')
      else if code = http_StatusUnprocessableEntity then
        (StatusReasonInvalid,
         ''the server rejected our request due to an error in our request'')
      else if code = http_StatusServiceUnavailable then
        (StatusReasonServiceUnavailable,
         ''the server is currently unable to handle the request'')
      else if code = http_StatusGatewayTimeout then
        (StatusReasonTimeout,
         ''the server was unable to return a response in the time allotted, ''
           @ ''but may still be processing the request'')
      else if code = http_StatusTooManyRequests then
        (StatusReasonTooManyRequests,
         ''the server has received too many requests and has asked us to try again later'')
      else if 500 <=s code then
        (StatusReasonInternalError,
         ''an error on the server ('' @ Quote serverMessage
           @ '') has prevented the request from succeeding'')
      else
        (StatusReasonUnknown,
         ''the server responded with the status code '' @ fmt_d code
           @ '' but did not return more information''))"

definition NewGenericServerResponse ::
  "(string \<Rightarrow> string) \<Rightarrow> go_int \<Rightarrow> string \<Rightarrow> string \<Rightarrow> string \<Rightarrow> go_int \<Rightarrow> bool
     \<Rightarrow> StatusError" where
  "NewGenericServerResponse Quote code verb name serverMessage retryAfterSeconds
       isUnexpectedResponse =
     (let (reason, message) = NewGenericServerResponse_reason Quote code verb serverMessage;
          causes = (if isUnexpectedResponse
                    then [StatusCause_zero\<lparr>Type := CauseTypeUnexpectedServerResponse,
                            CauseMessage := serverMessage\<rparr>]
                    else [])
      in \<lparr>ErrStatus = \<lparr>
           Status = StatusFailure,
           Message = message,
           Reason = reason,
           Details = Some (StatusDetails_zero\<lparr>Name := name, Causes := causes,
             RetryAfterSeconds := int32_of retryAfterSeconds\<rparr>),
           Code = int32_of code\<rparr>\<rparr>)"

section \<open>Classifiers\<close>

text \<open>
  \<open>errors.As(err, &status)\<close> with \<open>status\<close> of interface type \<open>APIStatus\<close>: false on
  the nil interface; otherwise it walks the chain of \<open>Unwrap\<close> and stops at the first
  value whose type has the method \<open>Status() Status\<close>. Of the concrete types, only
  \<open>*StatusError\<close> has it, and a nil pointer of that type matches as well: the test is
  on the type. The result is the pointer found.
\<close>

fun as_APIStatus :: "err \<Rightarrow> StatusError option option" where
  "as_APIStatus (PtrStatusError e) = Some e"
| "as_APIStatus (PtrUnexpectedObjectError u) = None"
| "as_APIStatus (errorString s) = None"
| "as_APIStatus (wrapError msg e) = as_APIStatus e"

definition errors_As_APIStatus :: "error \<Rightarrow> StatusError option option" where
  "errors_As_APIStatus err = (case err of None \<Rightarrow> None | Some e \<Rightarrow> as_APIStatus e)"

definition ReasonForError :: "error \<Rightarrow> go_panic + StatusReason" where
  "ReasonForError err =
     (case errors_As_APIStatus err of
        Some status \<Rightarrow>
          (case StatusError_Status status of Inl p \<Rightarrow> Inl p | Inr s \<Rightarrow> Inr (Reason s))
      | None \<Rightarrow> Inr StatusReasonUnknown)"














definition IsInternalError :: "error \<Rightarrow> go_panic + bool" where
  "IsInternalError err =
     (case ReasonForError err of Inl p \<Rightarrow> Inl p
      | Inr r \<Rightarrow> Inr (r = StatusReasonInternalError))"



section \<open>Retry advisor\<close>


section \<open>Wire converter\<close>

text \<open>
  \<open>ErrorToAPIStatus\<close> switches on the dynamic type of \<open>err\<close> itself. What it hands to
  \<open>runtime.HandleError\<close> is returned beside the status, as the list of errors reported.
  In the default branch \<open>err.Error()\<close> is called on whatever \<open>err\<close> is.
\<close>

datatype fault = WrongStatusField err

definition ErrorToAPIStatus :: "error \<Rightarrow> go_panic + Status \<times> fault list" where
  "ErrorToAPIStatus err =
     (case err of
        Some (PtrStatusError t) \<Rightarrow>
          (case StatusError_Status t of
             Inl p \<Rightarrow> Inl p
           | Inr status0 \<Rightarrow>
               (let status = (if length (Status status0) = 0
                              then status0\<lparr>Status := StatusFailure\<rparr> else status0)
                in if Status status = StatusSuccess then
                     Inr ((if Code status = 0 then status\<lparr>Code := http_StatusOK\<rparr>
                           else status), [])
                   else if Status status = StatusFailure then
                     Inr ((if Code status = 0
                           then status\<lparr>Code := http_StatusInternalServerError\<rparr>
                           else status), [])
                   else
                     Inr ((if Code status = 0
                           then status\<lparr>Code := http_StatusInternalServerError\<rparr>
                           else status), [WrongStatusField (PtrStatusError t)])))
      | Some e \<Rightarrow>
          (case Error e of
             Inl p \<Rightarrow> Inl p
           | Inr txt \<Rightarrow>
               Inr (\<lparr>Status = StatusFailure, Message = txt, Reason = StatusReasonUnknown,
                     Details = None, Code = http_StatusInternalServerError\<rparr>, []))
      | None \<Rightarrow> Inl NilPointerDereference)"

text \<open>
  \<open>strconv.Atoi\<close> of the standard library: an optional sign, then one or more decimal
  digits and nothing else, the value within the range of \<open>int\<close>; any other text is an
  error.
\<close>

definition digit_of :: "char \<Rightarrow> nat option" where
  "digit_of c = (let n = (of_char c :: nat) in if 48 \<le> n \<and> n \<le> 57 then Some (n - 48) else None)"

fun parse_digits :: "nat \<Rightarrow> string \<Rightarrow> nat option" where
  "parse_digits acc [] = Some acc"
| "parse_digits acc (c # cs) =
     (case digit_of c of None \<Rightarrow> None | Some d \<Rightarrow> parse_digits (acc * 10 + d) cs)"

definition Atoi :: "string \<Rightarrow> go_int option" where
  "Atoi s =
     (let (neg, ds) =
            (case s of
               [] \<Rightarrow> (False, [])
             | c # cs \<Rightarrow> if c = CHR ''-'' then (True, cs)
                          else if c = CHR ''+'' then (False, cs) else (False, s))
      in if ds = [] then None
         else (case parse_digits 0 ds of
                 None \<Rightarrow> None
               | Some n \<Rightarrow>
                   (let v = (if neg then - int n else int n)
                    in if - (2 ^ 63) \<le> v \<and> v < 2 ^ 63 then Some (word_of_int v) else None)))"

text \<open>
  A response as \<open>FromResponse\<close> sees it: the status code, the header (keys in canonical
  form, each with its list of values) and what \<open>ioutil.ReadAll(resp.Body)\<close> returns, the
  bytes or a read error. \<open>Header.Get\<close> gives the first value of a key, and the empty
  string when there is none.
\<close>

record http_Response =
  StatusCode :: go_int
  Header :: "string \<rightharpoonup> string list"
  Body :: "err + string"

definition Header_Get :: "(string \<rightharpoonup> string list) \<Rightarrow> string \<Rightarrow> string" where
  "Header_Get h key = (case h key of None \<Rightarrow> [] | Some [] \<Rightarrow> [] | Some (v # _) \<Rightarrow> v)"

definition retryAfterSeconds :: "http_Response \<Rightarrow> go_int \<times> bool" where
  "retryAfterSeconds resp =
     (let h = Header_Get (Header resp) ''Retry-After''
      in if length h > 0
         then (case Atoi h of Some i \<Rightarrow> (i, True) | None \<Rightarrow> (0, False))
         else (0, False))"

text \<open>
  \<open>json.Unmarshal(body, &status)\<close> into a zero \<open>Status\<close> is a parameter: it gives the
  decoded status or an error. \<open>FromResponse\<close> then writes the header's seconds into the
  details, which it allocates when the decoded status has none.
\<close>

definition FromResponse ::
  "(string \<Rightarrow> err + Status) \<Rightarrow> http_Response \<Rightarrow> go_panic + error \<times> bool" where
  "FromResponse Unmarshal resp =
     (if http_StatusOK <=s StatusCode resp \<and> StatusCode resp <=s http_StatusNoContent
      then Inr (None, False)
      else
        (case Body resp of
           Inl e \<Rightarrow>
             (case NewInternalError
                     (Some (Errorf_w ''client error: reading server response: '' e)) of
                Inl p \<Rightarrow> Inl p
              | Inr se \<Rightarrow> Inr (as_error se, True))
         | Inr body \<Rightarrow>
             (case Unmarshal body of
                Inl e \<Rightarrow>
                  (case NewInternalError
                          (Some (Errorf_w ''client error: unmarshalling server response: '' e)) of
                     Inl p \<Rightarrow> Inl p
                   | Inr se \<Rightarrow> Inr (as_error se, True))
              | Inr status0 \<Rightarrow>
                  (let (seconds, ok) = retryAfterSeconds resp;
                       status =
                         (if ok then
                            (case Details status0 of
                               None \<Rightarrow> status0\<lparr>Details := Some (StatusDetails_zero\<lparr>
                                 RetryAfterSeconds := int32_of seconds\<rparr>)\<rparr>
                             | Some d \<Rightarrow> status0\<lparr>Details := Some (d\<lparr>
                                 RetryAfterSeconds := int32_of seconds\<rparr>)\<rparr>)
                          else status0)
                   in Inr (as_error \<lparr>ErrStatus = status\<rparr>, True)))))"

section \<open>Definitions that follow the specification\<close>

text \<open>
  The definitions of this section are not taken from the code: they say, in the words of
  the specification, what the properties below compare the code with.

  A status error is a failure of the given code and reason.
\<close>

definition failure_with :: "StatusError \<Rightarrow> int32 \<Rightarrow> StatusReason \<Rightarrow> bool" where
  "failure_with se code reason \<longleftrightarrow>
     Status (ErrStatus se) = StatusFailure \<and> Code (ErrStatus se) = code
       \<and> Reason (ErrStatus se) = reason"

text \<open>
  The wrap chain of an error value: the value itself, then what it wraps, and so on.
  Only the result of \<open>fmt.Errorf\<close> with \<open>%w\<close> has an \<open>Unwrap\<close> method. A value exposes the
  status capability when its type has the method \<open>Status() Status\<close>. The first such
  value of the chain of an error (none for the nil error) is what the spec calls the
  status found.
\<close>

fun wrap_chain :: "err \<Rightarrow> err list" where
  "wrap_chain (wrapError msg e) = wrapError msg e # wrap_chain e"
| "wrap_chain e = [e]"

fun exposes_Status :: "err \<Rightarrow> bool" where
  "exposes_Status (PtrStatusError e) = True"
| "exposes_Status _ = False"

definition first_exposing_Status :: "error \<Rightarrow> err option" where
  "first_exposing_Status err =
     (case err of None \<Rightarrow> None | Some e \<Rightarrow> find exposes_Status (wrap_chain e))"


text \<open>The codes that have a row of their own in the decision table of the generic constructor.\<close>

definition table_codes :: "go_int set" where
  "table_codes = {409, 404, 400, 401, 403, 406, 415, 405, 422, 503, 504, 429}"

text \<open>The status codes for which a response is no error: the range [200, 204].\<close>

definition in_success_range :: "go_int \<Rightarrow> bool" where
  "in_success_range c \<longleftrightarrow> 200 \<le> sint c \<and> sint c \<le> 204"

text \<open>The status error that \<open>FromResponse\<close> makes of a failure of the given step.\<close>

definition downgraded :: "string \<Rightarrow> err \<Rightarrow> StatusError" where
  "downgraded step e =
     \<lparr>ErrStatus = \<lparr>
        Status = StatusFailure,
        Message = ''Internal error occurred: client error: '' @ step @ '' server response: ''
          @ fmt_v (Some e),
        Reason = StatusReasonInternalError,
        Details = Some \<lparr>Name = '''', UID = '''',
          Causes = [\<lparr>Type = '''',
            CauseMessage = ''client error: '' @ step @ '' server response: '' @ fmt_v (Some e),
            Field = ''''\<rparr>],
          RetryAfterSeconds = 0\<rparr>,
        Code = 500\<rparr>\<rparr>"

text \<open>
  The status \<open>FromResponse\<close> returns when the header gives the seconds: the decoded one
  with the seconds written into its details, allocated when absent.
\<close>

definition with_retry_after :: "Status \<Rightarrow> int32 \<Rightarrow> Status" where
  "with_retry_after st n =
     st\<lparr>Details := Some ((case Details st of None \<Rightarrow> StatusDetails_zero | Some d \<Rightarrow> d)
       \<lparr>RetryAfterSeconds := n\<rparr>)\<rparr>"



text \<open>The status synthesized for an error without the status capability.\<close>

definition synthesized :: "string \<Rightarrow> Status" where
  "synthesized msg =
     \<lparr>Status = StatusFailure, Message = msg, Reason = StatusReasonUnknown,
      Details = None, Code = 500\<rparr>"

section \<open>Properties of the constructors\<close>

lemmas http_codes =
  http_StatusOK_def http_StatusNoContent_def http_StatusBadRequest_def
  http_StatusUnauthorized_def http_StatusForbidden_def http_StatusNotFound_def
  http_StatusMethodNotAllowed_def http_StatusNotAcceptable_def http_StatusConflict_def
  http_StatusRequestEntityTooLarge_def http_StatusUnsupportedMediaType_def
  http_StatusUnprocessableEntity_def http_StatusTooManyRequests_def
  http_StatusInternalServerError_def http_StatusServiceUnavailable_def
  http_StatusGatewayTimeout_def

text \<open>The loop of \<open>NewInvalid\<close> ends normally exactly when no entry is a nil pointer.\<close>

lemma NewInvalid_causes_total:
  "None \<notin> set errs \<Longrightarrow> \<exists>cs. NewInvalid_causes body errs acc = Inr cs"
proof (induction errs arbitrary: acc)
  case Nil
  show ?case by simp
next
  case (Cons x xs)
  then obtain e where x: "x = Some e" by (cases x) auto
  from Cons.prems have "None \<notin> set xs" by simp
  with Cons.IH x show ?case by simp
qed

lemma NewInvalid_causes_nil_entry:
  "None \<in> set errs \<Longrightarrow> NewInvalid_causes body errs acc = Inl NilPointerDereference"
proof (induction errs arbitrary: acc)
  case Nil
  then show ?case by simp
next
  case (Cons x xs)
  show ?case
  proof (cases x)
    case None
    then show ?thesis by simp
  next
    case (Some e)
    with Cons.prems have "None \<in> set xs" by simp
    with Cons.IH Some show ?thesis by simp
  qed
qed

lemma NewInvalid_kind:
  assumes "None \<notin> set errs"
  shows "\<exists>se. NewInvalid body agg name errs = Inr se
           \<and> failure_with se 422 StatusReasonInvalid"
proof -
  from assms obtain cs where "NewInvalid_causes body errs [] = Inr cs"
    using NewInvalid_causes_total by blast
  then show ?thesis
    by (simp add: NewInvalid_def failure_with_def http_StatusUnprocessableEntity_def)
qed

lemma NewInternalError_kind:
  assumes "Error e = Inr msg"
  shows "\<exists>se. NewInternalError (Some e) = Inr se
           \<and> failure_with se 500 StatusReasonInternalError"
  using assms
  by (simp add: NewInternalError_def failure_with_def http_StatusInternalServerError_def)

text \<open>
  C1, as amended. Each canonical constructor gives a status error whose status is
  \<open>Failure\<close> and whose code and reason are the fixed pair of its kind, whatever the
  arguments: twelve of them for every argument value; \<open>NewInvalid\<close> for every list of
  field errors without a nil entry; \<open>NewInternalError\<close> for every error whose method
  \<open>Error\<close> returns (a non-nil interface that does not hold a nil pointer).
\<close>

theorem C1_constructors_fixed_code_and_reason:
  "failure_with (NewNotFound name uid) 404 StatusReasonNotFound
   \<and> failure_with (NewAlreadyExists name uid) 409 StatusReasonAlreadyExists
   \<and> failure_with (NewUnauthorized reason) 401 StatusReasonUnauthorized
   \<and> failure_with (NewForbidden name err) 403 StatusReasonForbidden
   \<and> failure_with (NewConflict name err) 409 StatusReasonConflict
   \<and> (None \<notin> set errs \<longrightarrow>
        (\<exists>se. NewInvalid ErrorBody ToAggregate_text name errs = Inr se
           \<and> failure_with se 422 StatusReasonInvalid))
   \<and> failure_with (NewBadRequest reason) 400 StatusReasonBadRequest
   \<and> failure_with (NewTooManyRequests message seconds) 429 StatusReasonTooManyRequests
   \<and> failure_with (NewServiceUnavailable reason) 503 StatusReasonServiceUnavailable
   \<and> failure_with (NewMethodNotSupported action) 405 StatusReasonMethodNotAllowed
   \<and> failure_with (NewServerTimeout operation seconds) 500 StatusReasonServerTimeout
   \<and> (Error e = Inr msg \<longrightarrow>
        (\<exists>se. NewInternalError (Some e) = Inr se
           \<and> failure_with se 500 StatusReasonInternalError))
   \<and> failure_with (NewTimeoutError message seconds) 504 StatusReasonTimeout
   \<and> failure_with (NewRequestEntityTooLargeError message) 413
        StatusReasonRequestEntityTooLarge"
proof -
  have simple:
    "failure_with (NewNotFound name uid) 404 StatusReasonNotFound"
    "failure_with (NewAlreadyExists name uid) 409 StatusReasonAlreadyExists"
    "failure_with (NewUnauthorized reason) 401 StatusReasonUnauthorized"
    "failure_with (NewForbidden name err) 403 StatusReasonForbidden"
    "failure_with (NewConflict name err) 409 StatusReasonConflict"
    "failure_with (NewBadRequest reason) 400 StatusReasonBadRequest"
    "failure_with (NewTooManyRequests message seconds) 429 StatusReasonTooManyRequests"
    "failure_with (NewServiceUnavailable reason) 503 StatusReasonServiceUnavailable"
    "failure_with (NewMethodNotSupported action) 405 StatusReasonMethodNotAllowed"
    "failure_with (NewServerTimeout operation seconds) 500 StatusReasonServerTimeout"
    "failure_with (NewTimeoutError message seconds) 504 StatusReasonTimeout"
    "failure_with (NewRequestEntityTooLargeError message) 413
       StatusReasonRequestEntityTooLarge"
    by (simp_all add: failure_with_def http_codes Let_def
        NewNotFound_def NewAlreadyExists_def NewUnauthorized_def NewForbidden_def
        NewConflict_def NewBadRequest_def NewTooManyRequests_def NewServiceUnavailable_def
        NewMethodNotSupported_def NewServerTimeout_def NewTimeoutError_def
        NewRequestEntityTooLargeError_def)
  show ?thesis
    using simple NewInvalid_kind [of errs ErrorBody ToAggregate_text name]
      NewInternalError_kind [of e msg]
    by blast
qed

text \<open>
  The two guarded constructors at concrete arguments: one required-value field error,
  and an error made by \<open>errors.New("boom")\<close>.
\<close>

theorem C1_constructors_witness:
  "(\<exists>se. NewInvalid (\<lambda>e. Detail e) (\<lambda>es. ''1 error'') ''name''
            [Some \<lparr>ErrorType = ''FieldValueRequired'', ErrorField = ''field[0].name'',
                    BadValue = '''', Detail = ''Required value''\<rparr>] = Inr se
         \<and> failure_with se 422 StatusReasonInvalid)
   \<and> (\<exists>se. NewInternalError (Some (errorString ''boom'')) = Inr se
         \<and> failure_with se 500 StatusReasonInternalError)"
  using C1_constructors_fixed_code_and_reason
    [where errs = "[Some \<lparr>ErrorType = ''FieldValueRequired'',
        ErrorField = ''field[0].name'', BadValue = '''', Detail = ''Required value''\<rparr>]"
      and e = "errorString ''boom''" and msg = "''boom''"
      and ErrorBody = "\<lambda>e. Detail e" and ToAggregate_text = "\<lambda>es. ''1 error''"
      and name = "''name''"]
  by simp

text \<open>
  C1 as stated fails for \<open>NewInternalError(nil)\<close>: the call \<open>err.Error()\<close> on the nil
  interface panics, and no status error is returned.
\<close>

theorem C1_NewInternalError_nil_panics:
  "NewInternalError None = Inl NilPointerDereference"
  by (simp add: NewInternalError_def)

section \<open>Properties of the classifiers\<close>



lemma as_APIStatus_Some:
  "find exposes_Status (wrap_chain e) = Some (PtrStatusError p) \<Longrightarrow> as_APIStatus e = Some p"
  by (induction e) auto


lemma errors_As_Some:
  "first_exposing_Status err = Some (PtrStatusError p) \<Longrightarrow> errors_As_APIStatus err = Some p"
  by (cases err) (auto simp: first_exposing_Status_def errors_As_APIStatus_def as_APIStatus_Some)



lemma ReasonForError_found:
  "first_exposing_Status err = Some (PtrStatusError (Some se))
   \<Longrightarrow> ReasonForError err = Inr (Reason (ErrStatus se))"
  by (simp add: ReasonForError_def errors_As_Some StatusError_Status_def)

lemma ReasonForError_nil_pointer:
  "first_exposing_Status err = Some (PtrStatusError None)
   \<Longrightarrow> ReasonForError err = Inl NilPointerDereference"
  by (simp add: ReasonForError_def errors_As_Some StatusError_Status_def)














section \<open>Properties of the retry advisor\<close>







section \<open>Properties of the generic constructor\<close>

text \<open>\<open>int32(x)\<close> keeps the value of an \<open>int\<close> that fits in 32 bits.\<close>

lemma sint_int32_of:
  assumes "- (2 ^ 31) \<le> sint x" and "sint x < 2 ^ 31"
  shows "sint (int32_of x) = sint x"
proof -
  have "sint (int32_of x) = signed_take_bit 31 (uint x)"
    by (simp add: int32_of_def signed_ucast_eq)
  also have "\<dots> = signed_take_bit 31 (signed_take_bit 63 (uint x))"
    by simp
  also have "\<dots> = signed_take_bit 31 (sint x)"
    by (simp add: sint_uint)
  also have "\<dots> = sint x"
    using assms by (simp add: signed_take_bit_int_eq_self)
  finally show ?thesis .
qed

lemma sle_500: "500 <=s (code :: go_int) \<longleftrightarrow> 500 \<le> sint code"
  by (simp add: word_sle_eq)

lemma NewGenericServerResponse_fields:
  "Status (ErrStatus (NewGenericServerResponse Quote code verb name serverMessage seconds
      unexpected)) = StatusFailure"
  "Code (ErrStatus (NewGenericServerResponse Quote code verb name serverMessage seconds
      unexpected)) = int32_of code"
  "Reason (ErrStatus (NewGenericServerResponse Quote code verb name serverMessage seconds
      unexpected)) = fst (NewGenericServerResponse_reason Quote code verb serverMessage)"
  "Message (ErrStatus (NewGenericServerResponse Quote code verb name serverMessage seconds
      unexpected)) = snd (NewGenericServerResponse_reason Quote code verb serverMessage)"
  "Details (ErrStatus (NewGenericServerResponse Quote code verb name serverMessage seconds
      unexpected)) =
     Some \<lparr>Name = name, UID = '''',
       Causes = (if unexpected
                 then [\<lparr>Type = CauseTypeUnexpectedServerResponse,
                         CauseMessage = serverMessage, Field = ''''\<rparr>]
                 else []),
       RetryAfterSeconds = int32_of seconds\<rparr>"
  by (simp_all add: NewGenericServerResponse_def StatusDetails_zero_def StatusCause_zero_def
      split: prod.split)

lemma reason_table:
  "code = 409 \<Longrightarrow> NewGenericServerResponse_reason Quote code verb m
     = ((if verb = ''POST'' then StatusReasonAlreadyExists else StatusReasonConflict),
        ''the server reported a conflict'')"
  "code = 404 \<Longrightarrow> NewGenericServerResponse_reason Quote code verb m
     = (StatusReasonNotFound, ''the server could not find the requested resource'')"
  "code = 400 \<Longrightarrow> NewGenericServerResponse_reason Quote code verb m
     = (StatusReasonBadRequest, ''the server rejected our request for an unknown reason'')"
  "code = 401 \<Longrightarrow> NewGenericServerResponse_reason Quote code verb m
     = (StatusReasonUnauthorized,
        ''the server has asked for the client to provide credentials'')"
  "code = 403 \<Longrightarrow> NewGenericServerResponse_reason Quote code verb m
     = (StatusReasonForbidden, m)"
  "code = 406 \<Longrightarrow> NewGenericServerResponse_reason Quote code verb m
     = (StatusReasonNotAcceptable,
        (if m = '''' \<or> m = ''unknown''
         then ''the server was unable to respond with a content type that the client supports''
         else m))"
  "code = 415 \<Longrightarrow> NewGenericServerResponse_reason Quote code verb m
     = (StatusReasonUnsupportedMediaType, m)"
  "code = 405 \<Longrightarrow> NewGenericServerResponse_reason Quote code verb m
     = (StatusReasonMethodNotAllowed,
        ''the server does not allow this method on the requested resource'')"
  "code = 422 \<Longrightarrow> NewGenericServerResponse_reason Quote code verb m
     = (StatusReasonInvalid,
        ''the server rejected our request due to an error in our request'')"
  "code = 503 \<Longrightarrow> NewGenericServerResponse_reason Quote code verb m
     = (StatusReasonServiceUnavailable,
        ''the server is currently unable to handle the request'')"
  "code = 504 \<Longrightarrow> NewGenericServerResponse_reason Quote code verb m
     = (StatusReasonTimeout,
        ''the server was unable to return a response in the time allotted, ''
          @ ''but may still be processing the request'')"
  "code = 429 \<Longrightarrow> NewGenericServerResponse_reason Quote code verb m
     = (StatusReasonTooManyRequests,
        ''the server has received too many requests and has asked us to try again later'')"
  by (simp_all add: NewGenericServerResponse_reason_def http_codes)

lemma reason_default:
  assumes "code \<notin> table_codes"
  shows "NewGenericServerResponse_reason Quote code verb m =
     (if 500 \<le> sint code
      then (StatusReasonInternalError,
            ''an error on the server ('' @ Quote m
              @ '') has prevented the request from succeeding'')
      else (StatusReasonUnknown,
            ''the server responded with the status code '' @ fmt_d code
              @ '' but did not return more information''))"
  using assms
  by (simp add: NewGenericServerResponse_reason_def http_codes sle_500 table_codes_def)

text \<open>
  C4, as amended. For all inputs, \<open>NewGenericServerResponse\<close> gives a failure whose code
  is \<open>int32(code)\<close>, the given code whenever that fits in 32 bits, and whose reason
  follows the decision table on the given code: 409 gives \<open>AlreadyExists\<close> for the verb
  \<open>POST\<close> and \<open>Conflict\<close> otherwise; 403 keeps the server message; 406 uses its canned
  message only for an empty server message or \<open>unknown\<close>; a code outside the table gives
  \<open>InternalError\<close> with the quoted server message when it is at least 500, and \<open>Unknown\<close>
  with the message that names the code otherwise. Apart from that, the details carry the
  name, the retry seconds and, exactly when the response was unexpected, one cause of type
  unexpected-server-response whose message is the server message.
\<close>

theorem C4_NewGenericServerResponse_table:
  fixes Quote :: "string \<Rightarrow> string" and code seconds :: go_int
    and verb name serverMessage :: string and isUnexpectedResponse :: bool
  defines "s \<equiv> ErrStatus (NewGenericServerResponse Quote code verb name serverMessage
      seconds isUnexpectedResponse)"
  shows "Status s = StatusFailure
   \<and> Code s = int32_of code
   \<and> (- (2 ^ 31) \<le> sint code \<and> sint code < 2 ^ 31 \<longrightarrow> sint (Code s) = sint code)
   \<and> (code = 409 \<and> verb = ''POST'' \<longrightarrow> Reason s = StatusReasonAlreadyExists)
   \<and> (code = 409 \<and> verb \<noteq> ''POST'' \<longrightarrow> Reason s = StatusReasonConflict)
   \<and> (code = 404 \<longrightarrow> Reason s = StatusReasonNotFound)
   \<and> (code = 400 \<longrightarrow> Reason s = StatusReasonBadRequest)
   \<and> (code = 401 \<longrightarrow> Reason s = StatusReasonUnauthorized)
   \<and> (code = 403 \<longrightarrow> Reason s = StatusReasonForbidden \<and> Message s = serverMessage)
   \<and> (code = 406 \<longrightarrow> Reason s = StatusReasonNotAcceptable
         \<and> (serverMessage = '''' \<or> serverMessage = ''unknown'' \<longrightarrow> Message s =
             ''the server was unable to respond with a content type that the client supports'')
         \<and> (serverMessage \<noteq> '''' \<and> serverMessage \<noteq> ''unknown'' \<longrightarrow>
             Message s = serverMessage))
   \<and> (code = 415 \<longrightarrow> Reason s = StatusReasonUnsupportedMediaType)
   \<and> (code = 405 \<longrightarrow> Reason s = StatusReasonMethodNotAllowed)
   \<and> (code = 422 \<longrightarrow> Reason s = StatusReasonInvalid)
   \<and> (code = 503 \<longrightarrow> Reason s = StatusReasonServiceUnavailable)
   \<and> (code = 504 \<longrightarrow> Reason s = StatusReasonTimeout)
   \<and> (code = 429 \<longrightarrow> Reason s = StatusReasonTooManyRequests)
   \<and> (code \<notin> table_codes \<and> 500 \<le> sint code \<longrightarrow>
         Reason s = StatusReasonInternalError
         \<and> Message s = ''an error on the server ('' @ Quote serverMessage
               @ '') has prevented the request from succeeding'')
   \<and> (code \<notin> table_codes \<and> sint code < 500 \<longrightarrow>
         Reason s = StatusReasonUnknown
         \<and> Message s = ''the server responded with the status code ''
               @ fmt_d code @ '' but did not return more information'')
   \<and> Details s =
       Some \<lparr>Name = name, UID = '''',
         Causes = (if isUnexpectedResponse
                   then [\<lparr>Type = CauseTypeUnexpectedServerResponse,
                           CauseMessage = serverMessage, Field = ''''\<rparr>]
                   else []),
         RetryAfterSeconds = int32_of seconds\<rparr>"
proof -
  note f = NewGenericServerResponse_fields
      [of Quote code verb name serverMessage seconds isUnexpectedResponse,
        folded s_def]
  have range: "- (2 ^ 31) \<le> sint code \<and> sint code < 2 ^ 31 \<longrightarrow> sint (Code s) = sint code"
    by (simp add: f(2) sint_int32_of)
  have table:
    "code = 409 \<and> verb = ''POST'' \<longrightarrow> Reason s = StatusReasonAlreadyExists"
    "code = 409 \<and> verb \<noteq> ''POST'' \<longrightarrow> Reason s = StatusReasonConflict"
    "code = 404 \<longrightarrow> Reason s = StatusReasonNotFound"
    "code = 400 \<longrightarrow> Reason s = StatusReasonBadRequest"
    "code = 401 \<longrightarrow> Reason s = StatusReasonUnauthorized"
    "code = 403 \<longrightarrow> Reason s = StatusReasonForbidden \<and> Message s = serverMessage"
    "code = 406 \<longrightarrow> Reason s = StatusReasonNotAcceptable
         \<and> (serverMessage = '''' \<or> serverMessage = ''unknown'' \<longrightarrow> Message s =
             ''the server was unable to respond with a content type that the client supports'')
         \<and> (serverMessage \<noteq> '''' \<and> serverMessage \<noteq> ''unknown'' \<longrightarrow>
             Message s = serverMessage)"
    "code = 415 \<longrightarrow> Reason s = StatusReasonUnsupportedMediaType"
    "code = 405 \<longrightarrow> Reason s = StatusReasonMethodNotAllowed"
    "code = 422 \<longrightarrow> Reason s = StatusReasonInvalid"
    "code = 503 \<longrightarrow> Reason s = StatusReasonServiceUnavailable"
    "code = 504 \<longrightarrow> Reason s = StatusReasonTimeout"
    "code = 429 \<longrightarrow> Reason s = StatusReasonTooManyRequests"
    by (simp_all add: f(3,4) reason_table)
  have other:
    "code \<notin> table_codes \<and> 500 \<le> sint code \<longrightarrow>
         Reason s = StatusReasonInternalError
         \<and> Message s = ''an error on the server ('' @ Quote serverMessage
               @ '') has prevented the request from succeeding''"
    "code \<notin> table_codes \<and> sint code < 500 \<longrightarrow>
         Reason s = StatusReasonUnknown
         \<and> Message s = ''the server responded with the status code ''
               @ fmt_d code @ '' but did not return more information''"
    using reason_default [of code Quote verb serverMessage]
    by (simp_all add: f(3,4))
  from f(1,2,5) range table other show ?thesis
    by blast
qed

lemma fmt_d_302: "fmt_d 302 = ''302''"
  by code_simp

text \<open>
  Rows of the table at concrete inputs, the first being the case of the package's test.
\<close>

theorem C4_NewGenericServerResponse_witness:
  "Reason (ErrStatus (NewGenericServerResponse (\<lambda>m. m) 429 ''GET'' ''res'' ''msg'' 10 True))
      = StatusReasonTooManyRequests
   \<and> sint (Code (ErrStatus (NewGenericServerResponse (\<lambda>m. m) 429 ''GET'' ''res'' ''msg'' 10
        True))) = 429
   \<and> Details (ErrStatus (NewGenericServerResponse (\<lambda>m. m) 429 ''GET'' ''res'' ''msg'' 10 True))
      = Some \<lparr>Name = ''res'', UID = '''',
          Causes = [\<lparr>Type = CauseTypeUnexpectedServerResponse, CauseMessage = ''msg'',
            Field = ''''\<rparr>],
          RetryAfterSeconds = 10\<rparr>
   \<and> Reason (ErrStatus (NewGenericServerResponse (\<lambda>m. m) 409 ''POST'' ''res'' ''msg'' 0 False))
      = StatusReasonAlreadyExists
   \<and> Reason (ErrStatus (NewGenericServerResponse (\<lambda>m. m) 409 ''get'' ''res'' ''msg'' 0 False))
      = StatusReasonConflict
   \<and> Message (ErrStatus (NewGenericServerResponse (\<lambda>m. m) 406 ''GET'' ''res'' ''unknown'' 0
        False))
      = ''the server was unable to respond with a content type that the client supports''
   \<and> Reason (ErrStatus (NewGenericServerResponse (\<lambda>m. m) 502 ''GET'' ''res'' ''msg'' 0 False))
      = StatusReasonInternalError
   \<and> Message (ErrStatus (NewGenericServerResponse (\<lambda>m. m) 302 ''GET'' ''res'' ''msg'' 0 False))
      = ''the server responded with the status code 302 but did not return more information''"
proof -
  note t = C4_NewGenericServerResponse_table [where Quote = "\<lambda>m. m" and name = "''res''"]
  have a: "Reason (ErrStatus (NewGenericServerResponse (\<lambda>m. m) 429 ''GET'' ''res'' ''msg'' 10
        True)) = StatusReasonTooManyRequests"
    "sint (Code (ErrStatus (NewGenericServerResponse (\<lambda>m. m) 429 ''GET'' ''res'' ''msg'' 10
        True))) = 429"
    "Details (ErrStatus (NewGenericServerResponse (\<lambda>m. m) 429 ''GET'' ''res'' ''msg'' 10 True))
      = Some \<lparr>Name = ''res'', UID = '''',
          Causes = [\<lparr>Type = CauseTypeUnexpectedServerResponse, CauseMessage = ''msg'',
            Field = ''''\<rparr>],
          RetryAfterSeconds = 10\<rparr>"
    using t [where code = 429 and verb = "''GET''" and serverMessage = "''msg''"
        and seconds = 10 and isUnexpectedResponse = True]
    by (simp_all add: int32_of_def)
  have b: "Reason (ErrStatus (NewGenericServerResponse (\<lambda>m. m) 409 ''POST'' ''res'' ''msg'' 0
        False)) = StatusReasonAlreadyExists"
    using t [where code = 409 and verb = "''POST''" and serverMessage = "''msg''"
        and seconds = 0 and isUnexpectedResponse = False]
    by simp
  have c: "Reason (ErrStatus (NewGenericServerResponse (\<lambda>m. m) 409 ''get'' ''res'' ''msg'' 0
        False)) = StatusReasonConflict"
    using t [where code = 409 and verb = "''get''" and serverMessage = "''msg''"
        and seconds = 0 and isUnexpectedResponse = False]
    by simp
  have d: "Message (ErrStatus (NewGenericServerResponse (\<lambda>m. m) 406 ''GET'' ''res''
        ''unknown'' 0 False))
      = ''the server was unable to respond with a content type that the client supports''"
    using t [where code = 406 and verb = "''GET''" and serverMessage = "''unknown''"
        and seconds = 0 and isUnexpectedResponse = False]
    by simp
  have e: "Reason (ErrStatus (NewGenericServerResponse (\<lambda>m. m) 502 ''GET'' ''res'' ''msg'' 0
        False)) = StatusReasonInternalError"
    using t [where code = 502 and verb = "''GET''" and serverMessage = "''msg''"
        and seconds = 0 and isUnexpectedResponse = False]
    by (simp add: table_codes_def)
  have f: "Message (ErrStatus (NewGenericServerResponse (\<lambda>m. m) 302 ''GET'' ''res'' ''msg'' 0
        False))
      = ''the server responded with the status code 302 but did not return more information''"
    using t [where code = 302 and verb = "''GET''" and serverMessage = "''msg''"
        and seconds = 0 and isUnexpectedResponse = False]
    by (simp add: table_codes_def fmt_d_302)
  from a b c d e f show ?thesis by blast
qed

text \<open>
  C4 as stated fails for a code beyond 32 bits: given \<open>4294967700\<close>, which is
  \<open>2^32 + 404\<close>, the switch sees a code outside the table that is at least 500, and the
  status carries the code 404 with the reason \<open>InternalError\<close>.
\<close>

theorem C4_code_beyond_int32_is_truncated:
  "sint (4294967700 :: go_int) = 4294967700
   \<and> sint (Code (ErrStatus (NewGenericServerResponse id 4294967700 ''GET'' ''res''
        ''msg'' 0 False))) = 404
   \<and> Reason (ErrStatus (NewGenericServerResponse id 4294967700 ''GET'' ''res''
        ''msg'' 0 False)) = StatusReasonInternalError"
  by (simp add: NewGenericServerResponse_def NewGenericServerResponse_reason_def http_codes
      int32_of_def word_sle_eq split: prod.split)

section \<open>Properties of the wire converter\<close>

lemma range_test:
  "(http_StatusOK <=s c \<and> c <=s http_StatusNoContent) = in_success_range (c :: go_int)"
  by (simp add: in_success_range_def http_codes word_sle_eq)

lemma NewInternalError_Errorf_w:
  "NewInternalError (Some (Errorf_w (''client error: '' @ step @ '' server response: '') e))
     = Inr (downgraded step e)"
  by (simp add: NewInternalError_def Errorf_w_def downgraded_def fmt_v_def
      StatusDetails_zero_def StatusCause_zero_def http_codes)

lemma FromResponse_success:
  "in_success_range (StatusCode resp) \<Longrightarrow> FromResponse Unmarshal resp = Inr (None, False)"
  by (simp add: FromResponse_def range_test)

lemma FromResponse_read_failure:
  assumes "\<not> in_success_range (StatusCode resp)" and "Body resp = Inl e"
  shows "FromResponse Unmarshal resp = Inr (as_error (downgraded ''reading'' e), True)"
  using assms NewInternalError_Errorf_w [of "''reading''" e]
  by (simp add: FromResponse_def range_test)

lemma FromResponse_decode_failure:
  assumes "\<not> in_success_range (StatusCode resp)" and "Body resp = Inr body"
    and "Unmarshal body = Inl e"
  shows "FromResponse Unmarshal resp = Inr (as_error (downgraded ''unmarshalling'' e), True)"
  using assms NewInternalError_Errorf_w [of "''unmarshalling''" e]
  by (simp add: FromResponse_def range_test)

lemma first_exposing_as_error:
  "first_exposing_Status (as_error se) = Some (PtrStatusError (Some se))"
  by (simp add: first_exposing_Status_def as_error_def)

lemma IsInternalError_downgraded:
  "IsInternalError (as_error (downgraded step e)) = Inr True"
  using ReasonForError_found [OF first_exposing_as_error, of "downgraded step e"]
  by (simp add: IsInternalError_def downgraded_def)

text \<open>
  C6. For a status code in [200, 204] \<open>FromResponse\<close> returns \<open>(nil, false)\<close>, whatever the
  body and the decoder. Outside that range, a failure to read the body and a failure to
  decode it each give, with \<open>hasError\<close> true, the status error that \<open>NewInternalError\<close>
  makes of the wrapped failure: its cause and message carry the rendered text of the
  failure, and \<open>IsInternalError\<close> classifies it.
\<close>

theorem C6_FromResponse_success_and_downgrade:
  "(in_success_range (StatusCode resp) \<longrightarrow> FromResponse Unmarshal resp = Inr (None, False))
   \<and> (\<not> in_success_range (StatusCode resp) \<and> Body resp = Inl e \<longrightarrow>
        FromResponse Unmarshal resp = Inr (as_error (downgraded ''reading'' e), True))
   \<and> (\<not> in_success_range (StatusCode resp) \<and> Body resp = Inr body \<and> Unmarshal body = Inl e \<longrightarrow>
        FromResponse Unmarshal resp = Inr (as_error (downgraded ''unmarshalling'' e), True))
   \<and> IsInternalError (as_error (downgraded step e)) = Inr True"
  using FromResponse_success [of resp Unmarshal] FromResponse_read_failure [of resp e Unmarshal]
    FromResponse_decode_failure [of resp body Unmarshal e] IsInternalError_downgraded [of step e]
  by blast

text \<open>
  A response of code 200 with a body that does not decode, and responses of code 502
  whose body fails to read and fails to decode.
\<close>

theorem C6_FromResponse_witness:
  "FromResponse (\<lambda>b. Inl (errorString ''unexpected end of JSON input''))
     \<lparr>StatusCode = 200, Header = Map.empty, Body = Inr ''not json''\<rparr> = Inr (None, False)
   \<and> FromResponse (\<lambda>b. Inl (errorString ''unexpected end of JSON input''))
     \<lparr>StatusCode = 502, Header = Map.empty, Body = Inl (errorString ''unexpected EOF'')\<rparr>
       = Inr (as_error (downgraded ''reading'' (errorString ''unexpected EOF'')), True)
   \<and> FromResponse (\<lambda>b. Inl (errorString ''unexpected end of JSON input''))
     \<lparr>StatusCode = 502, Header = Map.empty, Body = Inr ''not json''\<rparr>
       = Inr (as_error (downgraded ''unmarshalling''
           (errorString ''unexpected end of JSON input'')), True)
   \<and> IsInternalError (as_error (downgraded ''unmarshalling''
           (errorString ''unexpected end of JSON input''))) = Inr True
   \<and> Message (ErrStatus (downgraded ''unmarshalling''
           (errorString ''unexpected end of JSON input'')))
       = ''Internal error occurred: client error: unmarshalling server response: ''
           @ ''unexpected end of JSON input''"
proof -
  let ?U = "\<lambda>b::string. Inl (errorString ''unexpected end of JSON input'') :: err + Status"
  let ?ok = "\<lparr>StatusCode = 200, Header = Map.empty, Body = Inr ''not json''\<rparr>"
  let ?rd = "\<lparr>StatusCode = 502, Header = Map.empty, Body = Inl (errorString ''unexpected EOF'')\<rparr>"
  let ?dec = "\<lparr>StatusCode = 502, Header = Map.empty, Body = Inr ''not json''\<rparr>"
  have r: "in_success_range (StatusCode ?ok)" "\<not> in_success_range (StatusCode ?rd)"
    "\<not> in_success_range (StatusCode ?dec)"
    by (simp_all add: in_success_range_def)
  have "FromResponse ?U ?ok = Inr (None, False)"
    using C6_FromResponse_success_and_downgrade [where resp = ?ok and Unmarshal = ?U] r by simp
  moreover have "FromResponse ?U ?rd
      = Inr (as_error (downgraded ''reading'' (errorString ''unexpected EOF'')), True)"
    using C6_FromResponse_success_and_downgrade
      [where resp = ?rd and e = "errorString ''unexpected EOF''" and Unmarshal = ?U] r
    by simp
  moreover have "FromResponse ?U ?dec = Inr (as_error (downgraded ''unmarshalling''
           (errorString ''unexpected end of JSON input'')), True)"
    using C6_FromResponse_success_and_downgrade
      [where resp = ?dec and e = "errorString ''unexpected end of JSON input''"
        and Unmarshal = ?U and body = "''not json''"] r
    by simp
  moreover have "IsInternalError (as_error (downgraded ''unmarshalling''
           (errorString ''unexpected end of JSON input''))) = Inr True"
    using C6_FromResponse_success_and_downgrade
      [where e = "errorString ''unexpected end of JSON input''"
        and step = "''unmarshalling''"]
    by simp
  moreover have "Message (ErrStatus (downgraded ''unmarshalling''
           (errorString ''unexpected end of JSON input'')))
       = ''Internal error occurred: client error: unmarshalling server response: ''
           @ ''unexpected end of JSON input''"
    by (simp add: downgraded_def fmt_v_def)
  ultimately show ?thesis by simp
qed

text \<open>
  \<open>Atoi\<close> reads back the decimal rendering of every \<open>int\<close>, negative ones included.
\<close>

lemma digit_of_digit_char: "d < 10 \<Longrightarrow> digit_of (digit_char d) = Some d"
  by (simp add: digit_of_def digit_char_def Let_def)

lemma digit_of_signs: "digit_of CHR ''-'' = None" "digit_of CHR ''+'' = None"
  by (simp_all add: digit_of_def)

lemma parse_digits_append:
  "parse_digits acc (xs @ ys)
     = (case parse_digits acc xs of None \<Rightarrow> None | Some m \<Rightarrow> parse_digits m ys)"
  by (induction xs arbitrary: acc) (simp_all split: option.split)

lemma parse_digits_dec_digits: "parse_digits 0 (dec_digits n) = Some n"
proof (induction n rule: dec_digits.induct)
  case (1 n)
  show ?case
  proof (cases "n < 10")
    case True
    then show ?thesis
      by (subst dec_digits.simps) (simp add: digit_of_digit_char)
  next
    case False
    with 1 have "parse_digits 0 (dec_digits (n div 10)) = Some (n div 10)"
      by simp
    with False show ?thesis
      by (subst dec_digits.simps) (simp add: parse_digits_append digit_of_digit_char)
  qed
qed

lemma dec_digits_head: "\<exists>c cs. dec_digits n = c # cs \<and> digit_of c \<noteq> None"
proof (induction n rule: dec_digits.induct)
  case (1 n)
  show ?case
  proof (cases "n < 10")
    case True
    then show ?thesis
      by (subst dec_digits.simps) (simp add: digit_of_digit_char)
  next
    case False
    with 1 obtain c cs where "dec_digits (n div 10) = c # cs" "digit_of c \<noteq> None"
      by blast
    with False show ?thesis
      by (subst dec_digits.simps) simp
  qed
qed

lemma Atoi_digits:
  assumes "int n < 2 ^ 63"
  shows "Atoi (dec_digits n) = Some (word_of_int (int n))"
proof -
  obtain c cs where s: "dec_digits n = c # cs" and c: "digit_of c \<noteq> None"
    using dec_digits_head by blast
  from c have "c \<noteq> CHR ''-''" "c \<noteq> CHR ''+''"
    using digit_of_signs by auto
  moreover have "parse_digits 0 (c # cs) = Some n"
    using parse_digits_dec_digits [of n] s by simp
  ultimately show ?thesis
    using assms s by (simp add: Atoi_def Let_def del: parse_digits.simps)
qed

lemma Atoi_minus_digits:
  assumes "int n \<le> 2 ^ 63"
  shows "Atoi (CHR ''-'' # dec_digits n) = Some (word_of_int (- int n))"
proof -
  obtain c cs where s: "dec_digits n = c # cs"
    using dec_digits_head by blast
  have "parse_digits 0 (c # cs) = Some n"
    using parse_digits_dec_digits [of n] s by simp
  then show ?thesis
    using assms s by (simp add: Atoi_def Let_def del: parse_digits.simps)
qed

lemma Atoi_fmt_d: "Atoi (fmt_d x) = Some x"
proof (cases "sint x < 0")
  case True
  have "- (2 ^ 63) \<le> sint x"
    using sint_ge [of x] by simp
  then have "int (nat (- sint x)) \<le> 2 ^ 63"
    using True by simp
  then have "Atoi (CHR ''-'' # dec_digits (nat (- sint x)))
      = Some (word_of_int (- int (nat (- sint x))))"
    by (rule Atoi_minus_digits)
  with True show ?thesis
    by (simp add: fmt_d_def)
next
  case False
  have "sint x < 2 ^ 63"
    using sint_lt [of x] by simp
  then have "int (nat (sint x)) < 2 ^ 63"
    using False by simp
  then have "Atoi (dec_digits (nat (sint x))) = Some (word_of_int (int (nat (sint x))))"
    by (rule Atoi_digits)
  with False show ?thesis
    by (simp add: fmt_d_def)
qed

lemma Atoi_empty: "Atoi '''' = None"
  by (simp add: Atoi_def)

lemma retryAfterSeconds_Some:
  "Atoi (Header_Get (Header resp) ''Retry-After'') = Some i
   \<Longrightarrow> retryAfterSeconds resp = (i, True)"
  by (cases "Header_Get (Header resp) ''Retry-After'' = []")
    (simp_all add: retryAfterSeconds_def Atoi_empty Let_def)

lemma retryAfterSeconds_None:
  "Atoi (Header_Get (Header resp) ''Retry-After'') = None
   \<Longrightarrow> retryAfterSeconds resp = (0, False)"
  by (simp add: retryAfterSeconds_def Let_def)

lemma FromResponse_decoded:
  assumes "\<not> in_success_range (StatusCode resp)" and "Body resp = Inr body"
    and "Unmarshal body = Inr st"
  shows "FromResponse Unmarshal resp =
    (case Atoi (Header_Get (Header resp) ''Retry-After'') of
       Some i \<Rightarrow> Inr (as_error \<lparr>ErrStatus = with_retry_after st (int32_of i)\<rparr>, True)
     | None \<Rightarrow> Inr (as_error \<lparr>ErrStatus = st\<rparr>, True))"
proof (cases "Atoi (Header_Get (Header resp) ''Retry-After'')")
  case None
  with assms retryAfterSeconds_None [OF None] show ?thesis
    by (simp add: FromResponse_def range_test)
next
  case (Some i)
  with assms retryAfterSeconds_Some [OF Some] show ?thesis
    by (cases "Details st") (simp_all add: FromResponse_def range_test with_retry_after_def)
qed

lemma Header_Get_missing: "h key = None \<Longrightarrow> Header_Get h key = ''''"
  by (simp add: Header_Get_def)

text \<open>
  C7, as amended. When the body decodes to a status, a \<open>Retry-After\<close> header whose first
  value \<open>strconv.Atoi\<close> accepts (an optionally signed decimal integer within the range of
  \<open>int\<close>) sets the retry seconds of the details to \<open>int32\<close> of that number, which is the
  number itself when it fits in 32 bits, overriding what the body gave and allocating the
  details when absent. A missing header, and any value that \<open>Atoi\<close> rejects, leaves the
  decoded status as it is; the result is the status error of that status, with
  \<open>hasError\<close> true. What \<open>Atoi\<close> accepts includes the decimal rendering of every
  \<open>int\<close>, so also of the negative ones.
\<close>

theorem C7_Retry_After_header:
  "(\<not> in_success_range (StatusCode resp) \<and> Body resp = Inr body \<and> Unmarshal body = Inr st \<longrightarrow>
      (Atoi (Header_Get (Header resp) ''Retry-After'') = Some i \<longrightarrow>
         FromResponse Unmarshal resp
           = Inr (as_error \<lparr>ErrStatus = with_retry_after st (int32_of i)\<rparr>, True))
      \<and> (Atoi (Header_Get (Header resp) ''Retry-After'') = None \<longrightarrow>
         FromResponse Unmarshal resp = Inr (as_error \<lparr>ErrStatus = st\<rparr>, True)))
   \<and> (Header resp ''Retry-After'' = None \<longrightarrow>
         Atoi (Header_Get (Header resp) ''Retry-After'') = None)
   \<and> (- (2 ^ 31) \<le> sint i \<and> sint i < 2 ^ 31 \<longrightarrow> sint (int32_of i) = sint i)
   \<and> Details (with_retry_after st n)
       = Some ((case Details st of None \<Rightarrow> StatusDetails_zero | Some d \<Rightarrow> d)
           \<lparr>RetryAfterSeconds := n\<rparr>)
   \<and> Atoi (fmt_d x) = Some x"
proof -
  have decoded: "FromResponse Unmarshal resp =
    (case Atoi (Header_Get (Header resp) ''Retry-After'') of
       Some i \<Rightarrow> Inr (as_error \<lparr>ErrStatus = with_retry_after st (int32_of i)\<rparr>, True)
     | None \<Rightarrow> Inr (as_error \<lparr>ErrStatus = st\<rparr>, True))"
    if "\<not> in_success_range (StatusCode resp)" "Body resp = Inr body" "Unmarshal body = Inr st"
    using that by (rule FromResponse_decoded)
  have missing: "Header resp ''Retry-After'' = None \<longrightarrow>
         Atoi (Header_Get (Header resp) ''Retry-After'') = None"
    by (simp add: Header_Get_missing Atoi_empty)
  have range: "- (2 ^ 31) \<le> sint i \<and> sint i < 2 ^ 31 \<longrightarrow> sint (int32_of i) = sint i"
    by (simp add: sint_int32_of)
  have details: "Details (with_retry_after st n)
       = Some ((case Details st of None \<Rightarrow> StatusDetails_zero | Some d \<Rightarrow> d)
           \<lparr>RetryAfterSeconds := n\<rparr>)"
    by (simp add: with_retry_after_def)
  from decoded have "\<not> in_success_range (StatusCode resp) \<and> Body resp = Inr body
      \<and> Unmarshal body = Inr st \<longrightarrow>
      (Atoi (Header_Get (Header resp) ''Retry-After'') = Some i \<longrightarrow>
         FromResponse Unmarshal resp
           = Inr (as_error \<lparr>ErrStatus = with_retry_after st (int32_of i)\<rparr>, True))
      \<and> (Atoi (Header_Get (Header resp) ''Retry-After'') = None \<longrightarrow>
         FromResponse Unmarshal resp = Inr (as_error \<lparr>ErrStatus = st\<rparr>, True))"
    by simp
  with missing range details Atoi_fmt_d [of x] show ?thesis by blast
qed

lemma Atoi_7: "Atoi ''7'' = Some 7"
  by (simp add: Atoi_def digit_of_def)

lemma Atoi_soon: "Atoi ''soon'' = None"
  by (simp add: Atoi_def digit_of_def)

lemma Atoi_minus_5: "Atoi ''-5'' = Some (- 5)"
  by (simp add: Atoi_def digit_of_def)

text \<open>
  A decoded status without details and the headers \<open>Retry-After: 7\<close> and
  \<open>Retry-After: soon\<close>, and no header at all.
\<close>

theorem C7_Retry_After_witness:
  "FromResponse (\<lambda>b. Inr (Status_zero\<lparr>Status := StatusFailure, Code := 429\<rparr>))
     \<lparr>StatusCode = 429, Header = [''Retry-After'' \<mapsto> [''7'']], Body = Inr ''{}''\<rparr>
     = Inr (as_error \<lparr>ErrStatus = \<lparr>Status = StatusFailure, Message = '''', Reason = '''',
         Details = Some \<lparr>Name = '''', UID = '''', Causes = [], RetryAfterSeconds = 7\<rparr>,
         Code = 429\<rparr>\<rparr>, True)
   \<and> FromResponse (\<lambda>b. Inr (Status_zero\<lparr>Status := StatusFailure, Code := 429\<rparr>))
     \<lparr>StatusCode = 429, Header = [''Retry-After'' \<mapsto> [''soon'']], Body = Inr ''{}''\<rparr>
     = Inr (as_error \<lparr>ErrStatus = Status_zero\<lparr>Status := StatusFailure, Code := 429\<rparr>\<rparr>, True)
   \<and> FromResponse (\<lambda>b. Inr (Status_zero\<lparr>Status := StatusFailure, Code := 429\<rparr>))
     \<lparr>StatusCode = 429, Header = Map.empty, Body = Inr ''{}''\<rparr>
     = Inr (as_error \<lparr>ErrStatus = Status_zero\<lparr>Status := StatusFailure, Code := 429\<rparr>\<rparr>, True)"
proof -
  let ?st = "Status_zero\<lparr>Status := StatusFailure, Code := 429\<rparr>"
  let ?U = "\<lambda>b::string. Inr ?st :: err + Status"
  let ?r7 = "\<lparr>StatusCode = 429, Header = [''Retry-After'' \<mapsto> [''7'']], Body = Inr ''{}''\<rparr>"
  let ?rs = "\<lparr>StatusCode = 429, Header = [''Retry-After'' \<mapsto> [''soon'']], Body = Inr ''{}''\<rparr>"
  let ?r0 = "\<lparr>StatusCode = 429, Header = Map.empty, Body = Inr ''{}''\<rparr>"
  have out: "\<not> in_success_range 429"
    by (simp add: in_success_range_def)
  have h7: "Atoi (Header_Get (Header ?r7) ''Retry-After'') = Some 7"
    by (simp add: Header_Get_def Atoi_7)
  have hs: "Atoi (Header_Get (Header ?rs) ''Retry-After'') = None"
    by (simp add: Header_Get_def Atoi_soon)
  have h0: "Header ?r0 ''Retry-After'' = None"
    by simp
  have "FromResponse ?U ?r7 = Inr (as_error \<lparr>ErrStatus = with_retry_after ?st (int32_of 7)\<rparr>, True)"
    using C7_Retry_After_header [where resp = ?r7 and Unmarshal = ?U and body = "''{}''"
        and st = ?st and i = 7] out h7
    by simp
  then have a: "FromResponse ?U ?r7
     = Inr (as_error \<lparr>ErrStatus = \<lparr>Status = StatusFailure, Message = '''', Reason = '''',
         Details = Some \<lparr>Name = '''', UID = '''', Causes = [], RetryAfterSeconds = 7\<rparr>,
         Code = 429\<rparr>\<rparr>, True)"
    by (simp add: with_retry_after_def Status_zero_def StatusDetails_zero_def int32_of_def)
  have b: "FromResponse ?U ?rs = Inr (as_error \<lparr>ErrStatus = ?st\<rparr>, True)"
    using C7_Retry_After_header [where resp = ?rs and Unmarshal = ?U and body = "''{}''"
        and st = ?st] out hs
    by simp
  have "Atoi (Header_Get (Header ?r0) ''Retry-After'') = None"
    using C7_Retry_After_header [where resp = ?r0] h0 by blast
  then have c: "FromResponse ?U ?r0 = Inr (as_error \<lparr>ErrStatus = ?st\<rparr>, True)"
    using C7_Retry_After_header [where resp = ?r0 and Unmarshal = ?U and body = "''{}''"
        and st = ?st] out
    by simp
  from a b c show ?thesis by blast
qed

lemma int32_of_minus_5: "int32_of (- 5) = - 5"
  by (simp add: int32_of_def)

text \<open>
  C7 as stated fails for the header \<open>Retry-After: -5\<close>: it is not a non-negative
  integer, yet it is not ignored. The decoded status had no details; the one returned has
  details whose retry seconds are -5.
\<close>

theorem C7_negative_Retry_After_is_stored:
  "FromResponse (\<lambda>b. Inr Status_zero)
     \<lparr>StatusCode = 429, Header = [''Retry-After'' \<mapsto> [''-5'']], Body = Inr ''{}''\<rparr>
     = Inr (as_error \<lparr>ErrStatus = \<lparr>Status = '''', Message = '''', Reason = '''',
         Details = Some \<lparr>Name = '''', UID = '''', Causes = [], RetryAfterSeconds = - 5\<rparr>,
         Code = 0\<rparr>\<rparr>, True)
   \<and> sint (- 5 :: int32) = - 5"
  by (simp add: FromResponse_def range_test in_success_range_def retryAfterSeconds_def
      Header_Get_def Atoi_minus_5 Status_zero_def StatusDetails_zero_def int32_of_minus_5)





text \<open>
  C10. \<open>ErrorToAPIStatus\<close> looks at the top-level value only: for an error made by
  \<open>fmt.Errorf\<close> with \<open>%w\<close>, whatever it wraps, the result is the synthesized
  \<open>Failure\<close>/500/\<open>Unknown\<close> status whose message is the wrapper's text. When the wrapped
  value is a status error, its status is not returned, although \<open>ReasonForError\<close> finds
  its reason through the same wrapper.
\<close>

theorem C10_ErrorToAPIStatus_top_level_only:
  "ErrorToAPIStatus (Some (wrapError msg e)) = Inr (synthesized msg, [])
   \<and> ErrorToAPIStatus (Some (wrapError msg (PtrStatusError (Some se))))
       = Inr (\<lparr>Status = StatusFailure, Message = msg, Reason = StatusReasonUnknown,
               Details = None, Code = 500\<rparr>, [])
   \<and> ReasonForError (Some (wrapError msg (PtrStatusError (Some se))))
       = Inr (Reason (ErrStatus se))"
proof -
  have conv: "ErrorToAPIStatus (Some (wrapError msg e')) = Inr (synthesized msg, [])" for e'
    by (simp add: ErrorToAPIStatus_def synthesized_def http_codes)
  have "first_exposing_Status (Some (wrapError msg (PtrStatusError (Some se))))
      = Some (PtrStatusError (Some se))"
    by (simp add: first_exposing_Status_def)
  then have "ReasonForError (Some (wrapError msg (PtrStatusError (Some se))))
      = Inr (Reason (ErrStatus se))"
    by (rule ReasonForError_found)
  with conv [of e] conv [of "PtrStatusError (Some se)"] show ?thesis
    by (simp add: synthesized_def)
qed

section \<open>The round trip through the wire format\<close>

text \<open>
  The encoder and the decoder of the wire format belong to \<open>encoding/json\<close>, which is
  outside this development. What \<open>FromResponse\<close> adds to them is settled here: when the
  decoder inverts the encoder at a status, a response outside the success range whose
  body is the encoded status, and which has no \<open>Retry-After\<close> header, gives back that
  status, with \<open>hasError\<close> true.
\<close>

lemma FromResponse_returns_what_decodes:
  assumes "\<not> in_success_range (StatusCode resp)"
    and "Body resp = Inr (Marshal s)"
    and "Header resp ''Retry-After'' = None"
    and "Unmarshal (Marshal s) = Inr s"
  shows "FromResponse Unmarshal resp = Inr (as_error \<lparr>ErrStatus = s\<rparr>, True)"
proof -
  have "Atoi (Header_Get (Header resp) ''Retry-After'') = None"
    using assms(3) by (simp add: Header_Get_missing Atoi_empty)
  with FromResponse_decoded [of resp "Marshal s" Unmarshal s] assms show ?thesis
    by simp
qed

end
